theory Spec2Isabelle
  imports Main
begin

section \<open>The ESMTP client test script\<close>

text \<open>
  The script \<^verbatim>\<open>test-esmtp-client.py\<close> has two functions: \<^verbatim>\<open>send_test_email\<close>, which
  builds one MIME message and submits it through \<^verbatim>\<open>smtplib\<close>, and \<^verbatim>\<open>main\<close>, which calls
  it for five hard-coded scenarios. Everything the script does is a \<^verbatim>\<open>print\<close> or a call
  into a library (\<^verbatim>\<open>email.mime\<close>, \<^verbatim>\<open>smtplib\<close>, \<^verbatim>\<open>time\<close>). The model keeps both as
  explicit state: the lines printed so far, and the library calls issued so far with
  their arguments. What a library call does is not part of the script; it is a parameter
  of the model.
\<close>

subsection \<open>Exceptions, library calls, process state\<close>

text \<open>
  An exception value stands for an instance of Python's \<^verbatim>\<open>Exception\<close>, the class named by
  the handler \<^verbatim>\<open>except Exception as e\<close>; \<open>exn_text\<close> is what \<^verbatim>\<open>f"{e}"\<close> prints. The
  functions of this and the next two subsections follow a run in which \<^verbatim>\<open>print\<close> itself
  does not fail and no \<^verbatim>\<open>KeyboardInterrupt\<close> arrives; the subsection after them gives
  \<^verbatim>\<open>send_test_email\<close> once more with both, to say which exceptions leave the function.
\<close>

datatype exn = Exception (exn_text: string)

text \<open>The library calls of the script, one constructor per call site, with the arguments passed.\<close>

datatype call =
    MIMEMultipart_new
  | Setitem string string
  | MIMEText_new string string
  | Attach
  | SMTP_new string int
  | Set_debuglevel int
  | As_string
  | Sendmail string "string list" string
  | Quit
  | Sleep int

text \<open>
  How the libraries answer during one submission: \<open>raises c\<close> is the exception call
  \<open>c\<close> raises (\<open>None\<close> when it returns), \<open>as_string_value\<close> is the text
  \<^verbatim>\<open>msg.as_string()\<close> returns when it returns, and \<open>quit_reply\<close> is the SMTP reply code in
  the pair \<^verbatim>\<open>server.quit()\<close> returns when it returns. \<^verbatim>\<open>smtplib\<close> raises for a refused
  connection and for a rejected sender, recipient or message; the reply to \<^verbatim>\<open>QUIT\<close> it
  returns as it is, whatever its code. The script calls \<^verbatim>\<open>server.quit()\<close> as an expression
  statement, so the reply is dropped.
\<close>

record library =
  raises :: "call \<Rightarrow> exn option"
  as_string_value :: string
  quit_reply :: int

text \<open>
  The state of the running script: \<open>stdout\<close> has one entry per call of \<^verbatim>\<open>print\<close>, the text
  printed, and \<open>calls\<close> the library calls issued, both in the order they happened. An
  entry of \<open>stdout\<close> is called a line below, although the text of some begins with a
  newline character, written \<^verbatim>\<open>\n\<close> at the head of the string in the source.
\<close>

record process =
  stdout :: "string list"
  calls :: "call list"

definition print :: "string \<Rightarrow> process \<Rightarrow> process" where
  "print line s = s\<lparr>stdout := stdout s @ [line]\<rparr>"

definition invoke :: "library \<Rightarrow> call \<Rightarrow> process \<Rightarrow> exn option \<times> process" where
  "invoke lib c s = (raises lib c, s\<lparr>calls := calls s @ [c]\<rparr>)"

text \<open>Statements in sequence: the first call that raises ends the sequence.\<close>

fun run_calls :: "library \<Rightarrow> call list \<Rightarrow> process \<Rightarrow> exn option \<times> process" where
  "run_calls lib [] s = (None, s)"
| "run_calls lib (c # cs) s =
     (case invoke lib c s of
        (Some e, s') \<Rightarrow> (Some e, s')
      | (None, s') \<Rightarrow> run_calls lib cs s')"

subsection \<open>\<^verbatim>\<open>send_test_email\<close>\<close>

text \<open>The library calls of the \<^verbatim>\<open>try\<close> block (source lines 25 to 38), in program order.\<close>

definition try_calls ::
  "library \<Rightarrow> string \<Rightarrow> int \<Rightarrow> string \<Rightarrow> string \<Rightarrow> string \<Rightarrow> string \<Rightarrow> call list" where
  "try_calls lib smtp_host smtp_port from_addr to_addr subject body =
     [MIMEMultipart_new,
      Setitem ''From'' from_addr,
      Setitem ''To'' to_addr,
      Setitem ''Subject'' subject,
      MIMEText_new body ''plain'',
      Attach,
      SMTP_new smtp_host smtp_port,
      Set_debuglevel 0,
      As_string,
      Sendmail from_addr [to_addr] (as_string_value lib),
      Quit]"

definition success_line :: string where
  "success_line = ''   COMPLETED Email sent successfully''"

definition failure_line :: "exn \<Rightarrow> string" where
  "failure_line e = ''   FAILED Failed to send email: '' @ exn_text e"

text \<open>The \<^verbatim>\<open>try\<close> block: it raises, or prints the success line and returns \<^verbatim>\<open>True\<close>.\<close>

definition try_block ::
  "library \<Rightarrow> string \<Rightarrow> int \<Rightarrow> string \<Rightarrow> string \<Rightarrow> string \<Rightarrow> string \<Rightarrow> process
     \<Rightarrow> (exn + bool) \<times> process" where
  "try_block lib smtp_host smtp_port from_addr to_addr subject body s =
     (case run_calls lib (try_calls lib smtp_host smtp_port from_addr to_addr subject body) s of
        (Some e, s') \<Rightarrow> (Inl e, s')
      | (None, s') \<Rightarrow> (Inr True, print success_line s'))"

text \<open>The four lines printed before the \<^verbatim>\<open>try\<close> block (source lines 18 to 21).\<close>

definition case_header :: "string \<Rightarrow> string \<Rightarrow> string \<Rightarrow> string \<Rightarrow> string list" where
  "case_header test_name from_addr to_addr subject =
     [CHR 0x0A # ''TESTING '' @ test_name,
      ''   From: '' @ from_addr,
      ''   To: '' @ to_addr,
      ''   Subject: '' @ subject]"

definition send_test_email ::
  "library \<Rightarrow> string \<Rightarrow> int \<Rightarrow> string \<Rightarrow> string \<Rightarrow> string \<Rightarrow> string \<Rightarrow> string \<Rightarrow> process
     \<Rightarrow> bool \<times> process" where
  "send_test_email lib smtp_host smtp_port from_addr to_addr subject body test_name s =
     (let s1 = print (CHR 0x0A # ''TESTING '' @ test_name) s;
          s2 = print (''   From: '' @ from_addr) s1;
          s3 = print (''   To: '' @ to_addr) s2;
          s4 = print (''   Subject: '' @ subject) s3
      in case try_block lib smtp_host smtp_port from_addr to_addr subject body s4 of
           (Inr r, s5) \<Rightarrow> (r, s5)
         | (Inl e, s5) \<Rightarrow> (False, print (failure_line e) s5))"

subsection \<open>The five scenarios and \<^verbatim>\<open>main\<close>\<close>

record test_case =
  tc_name :: string
  tc_from :: string
  tc_to :: string
  tc_subject :: string
  tc_body :: string

definition legitimate_business_email :: test_case where
  "legitimate_business_email =
     \<lparr>tc_name = ''Legitimate Business Email'',
      tc_from = ''ceo@company.com'',
      tc_to = ''team@company.com'',
      tc_subject = ''Q4 Strategy Meeting'',
      tc_body = ''Team, please join us for the Q4 strategy meeting on Friday at 2 PM.''\<rparr>"

definition newsletter_email :: test_case where
  "newsletter_email =
     \<lparr>tc_name = ''Newsletter Email'',
      tc_from = ''newsletter@company.com'',
      tc_to = ''subscriber@example.com'',
      tc_subject = ''Weekly Newsletter - AI Security Updates'',
      tc_body = ''Welcome to our weekly newsletter featuring the latest in AI security research.''\<rparr>"

definition suspicious_phishing_email :: test_case where
  "suspicious_phishing_email =
     \<lparr>tc_name = ''Suspicious Phishing Email'',
      tc_from = ''security@bank-fake.com'',
      tc_to = ''customer@example.com'',
      tc_subject = ''URGENT: Account Security Alert'',
      tc_body = ''Your account will be suspended in 24 hours unless you verify your credentials immediately. Click here: http://fake-bank-security.com/login''\<rparr>"

definition malware_delivery_attempt :: test_case where
  "malware_delivery_attempt =
     \<lparr>tc_name = ''Malware Delivery Attempt'',
      tc_from = ''admin@suspicious-domain.ru'',
      tc_to = ''victim@company.com'',
      tc_subject = ''Invoice Attached - Please Review'',
      tc_body = ''Please find attached invoice. Download and execute the file to view: http://malware-site.com/invoice.exe''\<rparr>"

definition social_engineering_attempt :: test_case where
  "social_engineering_attempt =
     \<lparr>tc_name = ''Social Engineering Attempt'',
      tc_from = ''it-support@company-fake.com'',
      tc_to = ''employee@company.com'',
      tc_subject = ''IT Security Update Required'',
      tc_body = ''Your password expires today. Please update it immediately by clicking: http://fake-company-portal.com/update-password''\<rparr>"

text \<open>The scenarios in the order \<^verbatim>\<open>main\<close> submits them.\<close>

definition catalogue :: "test_case list" where
  "catalogue =
     [legitimate_business_email, newsletter_email, suspicious_phishing_email,
      malware_delivery_attempt, social_engineering_attempt]"

text \<open>
  One call of \<^verbatim>\<open>main\<close>: the scenario's fields as keyword arguments, host and port left to
  their defaults \<^verbatim>\<open>"localhost"\<close> and \<^verbatim>\<open>2525\<close>.
\<close>

definition send_case :: "library \<Rightarrow> test_case \<Rightarrow> process \<Rightarrow> bool \<times> process" where
  "send_case lib c s =
     send_test_email lib ''localhost'' 2525 (tc_from c) (tc_to c) (tc_subject c) (tc_body c)
       (tc_name c) s"

text \<open>
  \<^verbatim>\<open>time.sleep(1)\<close>: the pause is recorded among the calls; it returns for every
  non-negative argument.
\<close>

definition sleep :: "int \<Rightarrow> process \<Rightarrow> process" where
  "sleep n s = s\<lparr>calls := calls s @ [Sleep n]\<rparr>"

text \<open>
  \<^verbatim>\<open>main\<close>, statement by statement. \<open>libs k\<close> is how the libraries answer during the
  submission number \<open>k\<close> (counted from 0). The value each submission returns is bound
  and never used, as in the source, where the call is an expression statement.
\<close>

definition main :: "(nat \<Rightarrow> library) \<Rightarrow> process" where
  "main libs =
     (let s = print ''SECURITY fr0g.ai ESMTP Threat Vector Interceptor Test Suite''
                \<lparr>stdout = [], calls = []\<rparr>;
          s = print (replicate 60 CHR ''='') s;
          (r1, s) = send_case (libs 0) legitimate_business_email s;
          s = sleep 1 s;
          (r2, s) = send_case (libs 1) newsletter_email s;
          s = sleep 1 s;
          (r3, s) = send_case (libs 2) suspicious_phishing_email s;
          s = sleep 1 s;
          (r4, s) = send_case (libs 3) malware_delivery_attempt s;
          s = sleep 1 s;
          (r5, s) = send_case (libs 4) social_engineering_attempt s;
          s = print (CHR 0x0A # ''COMPLETED ESMTP Test Suite Completed!'') s;
          s = print (CHR 0x0A # ''TIP Tips:'') s;
          s = print ''   - Check MCP logs for threat analysis results'' s;
          s = print ''   - Monitor AI community reviews for each email'' s;
          s = print ''   - Watch for threat level classifications'' s;
          s = print ''   - Observe pattern recognition in email content'' s
      in s)"

subsection \<open>\<^verbatim>\<open>send_test_email\<close> with failing prints and interrupts\<close>

text \<open>
  What a statement can raise: an instance of \<^verbatim>\<open>Exception\<close>, which the handler
  \<^verbatim>\<open>except Exception as e\<close> catches, or \<^verbatim>\<open>KeyboardInterrupt\<close>, which derives from
  \<^verbatim>\<open>BaseException\<close> only and passes the handler.
\<close>

datatype raised = Exc exn | KeyboardInterrupt

text \<open>
  The surroundings of one submission: how the libraries answer, during which call the
  user interrupts the script (a call interrupted does not return, whatever the library
  would have answered), and for which text \<^verbatim>\<open>print\<close> raises, with the exception it raises
  (\<^verbatim>\<open>UnicodeEncodeError\<close> when the encoding of the standard output has no code for a
  character of the text).
\<close>

record runtime =
  library_of :: library
  interrupted :: "call \<Rightarrow> bool"
  print_error :: "string \<Rightarrow> exn option"

definition call_outcome :: "runtime \<Rightarrow> call \<Rightarrow> raised option" where
  "call_outcome rt c =
     (if interrupted rt c then Some KeyboardInterrupt
      else map_option Exc (raises (library_of rt) c))"

text \<open>A \<^verbatim>\<open>print\<close> that raises has written nothing.\<close>

definition print_raising :: "runtime \<Rightarrow> string \<Rightarrow> process \<Rightarrow> raised option \<times> process" where
  "print_raising rt line s =
     (case print_error rt line of
        Some e \<Rightarrow> (Some (Exc e), s)
      | None \<Rightarrow> (None, print line s))"

definition invoke_raising :: "runtime \<Rightarrow> call \<Rightarrow> process \<Rightarrow> raised option \<times> process" where
  "invoke_raising rt c s = (call_outcome rt c, s\<lparr>calls := calls s @ [c]\<rparr>)"

text \<open>Statements in sequence, calls or prints: the first that raises ends the sequence.\<close>

fun run_calls_raising :: "runtime \<Rightarrow> call list \<Rightarrow> process \<Rightarrow> raised option \<times> process" where
  "run_calls_raising rt [] s = (None, s)"
| "run_calls_raising rt (c # cs) s =
     (case invoke_raising rt c s of
        (Some r, s') \<Rightarrow> (Some r, s')
      | (None, s') \<Rightarrow> run_calls_raising rt cs s')"

fun print_lines_raising :: "runtime \<Rightarrow> string list \<Rightarrow> process \<Rightarrow> raised option \<times> process" where
  "print_lines_raising rt [] s = (None, s)"
| "print_lines_raising rt (l # ls) s =
     (case print_raising rt l s of
        (Some r, s') \<Rightarrow> (Some r, s')
      | (None, s') \<Rightarrow> print_lines_raising rt ls s')"

text \<open>
  The \<^verbatim>\<open>try\<close> block (source lines 24 to 41): the eleven calls, then the \<^verbatim>\<open>print\<close> of the
  success line, which is inside the block, then \<^verbatim>\<open>return True\<close>.
\<close>

definition try_block_raising ::
  "runtime \<Rightarrow> string \<Rightarrow> int \<Rightarrow> string \<Rightarrow> string \<Rightarrow> string \<Rightarrow> string \<Rightarrow> process
     \<Rightarrow> (raised + bool) \<times> process" where
  "try_block_raising rt smtp_host smtp_port from_addr to_addr subject body s =
     (case run_calls_raising rt
             (try_calls (library_of rt) smtp_host smtp_port from_addr to_addr subject body) s of
        (Some r, s') \<Rightarrow> (Inl r, s')
      | (None, s') \<Rightarrow>
          (case print_raising rt success_line s' of
             (Some r, s'') \<Rightarrow> (Inl r, s'')
           | (None, s'') \<Rightarrow> (Inr True, s'')))"

text \<open>
  The function: the four \<^verbatim>\<open>print\<close> statements of lines 18 to 21 stand before the \<^verbatim>\<open>try\<close>,
  so what they raise leaves the function; the handler (lines 43 to 45) takes an instance
  of \<^verbatim>\<open>Exception\<close> raised in the block, prints the failure line, outside of any \<^verbatim>\<open>try\<close>, and
  returns \<^verbatim>\<open>False\<close>. The result is \<open>Inr\<close> of the value returned, or \<open>Inl\<close> of what is
  raised to the caller.
\<close>

definition send_test_email_raising ::
  "runtime \<Rightarrow> string \<Rightarrow> int \<Rightarrow> string \<Rightarrow> string \<Rightarrow> string \<Rightarrow> string \<Rightarrow> string \<Rightarrow> process
     \<Rightarrow> (raised + bool) \<times> process" where
  "send_test_email_raising rt smtp_host smtp_port from_addr to_addr subject body test_name s =
     (case print_lines_raising rt
             [CHR 0x0A # ''TESTING '' @ test_name,
              ''   From: '' @ from_addr,
              ''   To: '' @ to_addr,
              ''   Subject: '' @ subject] s of
        (Some r, s4) \<Rightarrow> (Inl r, s4)
      | (None, s4) \<Rightarrow>
          (case try_block_raising rt smtp_host smtp_port from_addr to_addr subject body s4 of
             (Inr v, s5) \<Rightarrow> (Inr v, s5)
           | (Inl (Exc e), s5) \<Rightarrow>
               (case print_raising rt (failure_line e) s5 of
                  (Some r, s6) \<Rightarrow> (Inl r, s6)
                | (None, s6) \<Rightarrow> (Inr False, s6))
           | (Inl KeyboardInterrupt, s5) \<Rightarrow> (Inl KeyboardInterrupt, s5)))"

section \<open>Observations on a run\<close>

text \<open>
  What a sequence of calls yields under a library: the exception of the first call that
  raises, and the calls that are issued (every call up to and including that one).
\<close>

fun first_raise :: "library \<Rightarrow> call list \<Rightarrow> exn option" where
  "first_raise lib [] = None"
| "first_raise lib (c # cs) =
     (case raises lib c of Some e \<Rightarrow> Some e | None \<Rightarrow> first_raise lib cs)"

fun issued :: "library \<Rightarrow> call list \<Rightarrow> call list" where
  "issued lib [] = []"
| "issued lib (c # cs) =
     c # (case raises lib c of Some e \<Rightarrow> [] | None \<Rightarrow> issued lib cs)"

text \<open>
  The line a submission prints last: the success line, or the failure line with the
  text of the exception.
\<close>

definition outcome_line :: "exn option \<Rightarrow> string" where
  "outcome_line r = (case r of None \<Rightarrow> success_line | Some e \<Rightarrow> failure_line e)"

text \<open>
  Outcome lines are recognised in the output by their first characters, which no other
  line of the script has.
\<close>

definition is_outcome_line :: "string \<Rightarrow> bool" where
  "is_outcome_line l \<longleftrightarrow> take 12 l = ''   COMPLETED'' \<or> take 9 l = ''   FAILED''"

text \<open>
  The calls, the header and the five printed lines of one scenario as \<^verbatim>\<open>main\<close> submits it.
\<close>

definition case_calls :: "library \<Rightarrow> test_case \<Rightarrow> call list" where
  "case_calls lib c =
     try_calls lib ''localhost'' 2525 (tc_from c) (tc_to c) (tc_subject c) (tc_body c)"

definition header_of :: "test_case \<Rightarrow> string list" where
  "header_of c = case_header (tc_name c) (tc_from c) (tc_to c) (tc_subject c)"

definition case_report :: "library \<Rightarrow> test_case \<Rightarrow> string list" where
  "case_report lib c =
     case_header (tc_name c) (tc_from c) (tc_to c) (tc_subject c)
       @ [outcome_line (first_raise lib (case_calls lib c))]"

text \<open>
  The first two and the last six lines \<^verbatim>\<open>main\<close> prints.
\<close>

definition opening_banner :: "string list" where
  "opening_banner =
     [''SECURITY fr0g.ai ESMTP Threat Vector Interceptor Test Suite'', replicate 60 CHR ''='']"

definition closing_banner :: "string list" where
  "closing_banner =
     [CHR 0x0A # ''COMPLETED ESMTP Test Suite Completed!'',
      CHR 0x0A # ''TIP Tips:'',
      ''   - Check MCP logs for threat analysis results'',
      ''   - Monitor AI community reviews for each email'',
      ''   - Watch for threat level classifications'',
      ''   - Observe pattern recognition in email content'']"

text \<open>
  The envelopes handed to \<^verbatim>\<open>sendmail\<close>: sender and recipient list of every
  \<open>Sendmail\<close> call, in order.
\<close>

fun envelopes :: "call list \<Rightarrow> (string \<times> string list) list" where
  "envelopes [] = []"
| "envelopes (Sendmail a r x # cs) = (a, r) # envelopes cs"
| "envelopes (c # cs) = envelopes cs"

text \<open>
  The calls made on the \<^verbatim>\<open>smtplib.SMTP\<close> object, starting with the constructor that opens the
  connection. The other calls of the \<^verbatim>\<open>try\<close> block build the message in memory.
\<close>

fun is_smtp_call :: "call \<Rightarrow> bool" where
  "is_smtp_call (SMTP_new h p) = True"
| "is_smtp_call (Set_debuglevel n) = True"
| "is_smtp_call (Sendmail a r x) = True"
| "is_smtp_call Quit = True"
| "is_smtp_call c = False"

text \<open>
  The report of \<^verbatim>\<open>main\<close> read back from the final state. Every submission prints five lines
  after the two banner lines, so the lines of submission \<open>k\<close> are those at positions
  \<open>2 + 5 * k\<close> to \<open>6 + 5 * k\<close>. The calls of two submissions are separated by one
  \<open>Sleep\<close>, so the calls of submission \<open>k\<close> are the segment number \<open>k\<close>.
\<close>

definition report_block :: "process \<Rightarrow> nat \<Rightarrow> string list" where
  "report_block s k = take 5 (drop (2 + 5 * k) (stdout s))"

fun segments :: "call list \<Rightarrow> call list list" where
  "segments [] = [[]]"
| "segments (Sleep n # cs) = [] # segments cs"
| "segments (c # cs) = (case segments cs of [] \<Rightarrow> [[c]] | g # gs \<Rightarrow> (c # g) # gs)"

definition submitted :: "process \<Rightarrow> nat \<Rightarrow> call list" where
  "submitted s k = segments (calls s) ! k"

definition fields_nonempty :: "test_case \<Rightarrow> bool" where
  "fields_nonempty c \<longleftrightarrow>
     tc_name c \<noteq> [] \<and> tc_from c \<noteq> [] \<and> tc_to c \<noteq> [] \<and> tc_subject c \<noteq> [] \<and> tc_body c \<noteq> []"


definition empty_process :: process where
  "empty_process = \<lparr>stdout = [], calls = []\<rparr>"

text \<open>
  The reply codes by which an SMTP server rejects a command: 4yz, a transient failure, and
  5yz, a permanent one.
\<close>

definition rejection_reply :: "int \<Rightarrow> bool" where
  "rejection_reply code \<longleftrightarrow> 400 \<le> code \<and> code < 600"

text \<open>
  The same observations for a run with interrupts and failing prints: what the first call
  that does not return raises, the calls issued up to it, the exception of the first
  \<^verbatim>\<open>print\<close> that raises, and the lines printed before it.
\<close>

fun first_event :: "runtime \<Rightarrow> call list \<Rightarrow> raised option" where
  "first_event rt [] = None"
| "first_event rt (c # cs) =
     (case call_outcome rt c of Some r \<Rightarrow> Some r | None \<Rightarrow> first_event rt cs)"

fun issued_raising :: "runtime \<Rightarrow> call list \<Rightarrow> call list" where
  "issued_raising rt [] = []"
| "issued_raising rt (c # cs) =
     c # (case call_outcome rt c of Some r \<Rightarrow> [] | None \<Rightarrow> issued_raising rt cs)"

fun first_print_error :: "runtime \<Rightarrow> string list \<Rightarrow> exn option" where
  "first_print_error rt [] = None"
| "first_print_error rt (l # ls) =
     (case print_error rt l of Some e \<Rightarrow> Some e | None \<Rightarrow> first_print_error rt ls)"

fun printed :: "runtime \<Rightarrow> string list \<Rightarrow> string list" where
  "printed rt [] = []"
| "printed rt (l # ls) =
     (case print_error rt l of Some e \<Rightarrow> [] | None \<Rightarrow> l # printed rt ls)"

subsection \<open>Sample libraries\<close>

text \<open>
  Concrete library behaviours for the examples. An endpoint that accepts everything and
  answers \<^verbatim>\<open>QUIT\<close> with 221; a host on which nothing listens, so that the connection is
  refused; an endpoint that accepts the connection and the envelope and then rejects the
  message data (\<^verbatim>\<open>sendmail\<close> raises \<^verbatim>\<open>SMTPDataError\<close>).
\<close>

definition cooperative :: library where
  "cooperative =
     \<lparr>raises = (\<lambda>c. None), as_string_value = ''rendered message'', quit_reply = 221\<rparr>"

definition refuses_connection :: library where
  "refuses_connection =
     \<lparr>raises = (\<lambda>c. case c of SMTP_new h p \<Rightarrow> Some (Exception ''[Errno 111] Connection refused'')
                         | _ \<Rightarrow> None),
      as_string_value = ''rendered message'',
      quit_reply = 221\<rparr>"

definition rejects_message :: library where
  "rejects_message =
     \<lparr>raises = (\<lambda>c. case c of Sendmail a r x \<Rightarrow> Some (Exception ''(554, b'Transaction failed')'')
                         | _ \<Rightarrow> None),
      as_string_value = ''rendered message'',
      quit_reply = 221\<rparr>"

text \<open>
  An endpoint that accepts the message and answers \<^verbatim>\<open>QUIT\<close> with \<^verbatim>\<open>500\<close>, as a server
  does that has no such command: \<^verbatim>\<open>server.quit()\<close> returns the pair of 500 and the server's
  text, and raises nothing.
\<close>

definition rejects_quit :: library where
  "rejects_quit =
     \<lparr>raises = (\<lambda>c. None), as_string_value = ''rendered message'', quit_reply = 500\<rparr>"


text \<open>
  Two runs of \<^verbatim>\<open>main\<close>: every submission accepted, and the third one failing.
\<close>

definition all_cooperative :: "nat \<Rightarrow> library" where
  "all_cooperative k = cooperative"

definition third_case_fails :: "nat \<Rightarrow> library" where
  "third_case_fails k = (if k = 2 then rejects_message else cooperative)"

subsection \<open>Sample surroundings\<close>

text \<open>
  Nothing listens on the port, prints succeed, no interrupt; the user presses Ctrl-C while
  the connection is being opened; and a standard output encoded in ASCII
  (\<^verbatim>\<open>PYTHONIOENCODING=ascii\<close>) in a submission whose subject is \<^verbatim>\<open>Caf\<close> followed by the
  character U+00E9, the only text of that submission with a character outside ASCII: the
  \<^verbatim>\<open>print\<close> of the subject line raises \<^verbatim>\<open>UnicodeEncodeError\<close> with the text given.
\<close>

definition no_server :: runtime where
  "no_server =
     \<lparr>library_of = refuses_connection,
      interrupted = (\<lambda>c. False),
      print_error = (\<lambda>l. None)\<rparr>"

definition interrupted_connect :: runtime where
  "interrupted_connect =
     \<lparr>library_of = cooperative,
      interrupted = (\<lambda>c. case c of SMTP_new h p \<Rightarrow> True | _ \<Rightarrow> False),
      print_error = (\<lambda>l. None)\<rparr>"

definition ascii_stdout :: runtime where
  "ascii_stdout =
     \<lparr>library_of = cooperative,
      interrupted = (\<lambda>c. False),
      print_error = (\<lambda>l. if l = ''   Subject: Caf'' @ [CHR 0xE9] then
                            Some (Exception (CHR 0x27 # ''ascii' codec can't encode character ''
                                @ [CHR 0x27, CHR 0x5C]
                                @ ''xe9' in position 15: ordinal not in range(128)''))
                          else None)\<rparr>"

section \<open>The functions in closed form\<close>

lemma run_calls_eq:
  "run_calls lib cs s = (first_raise lib cs, s\<lparr>calls := calls s @ issued lib cs\<rparr>)"
  by (induction cs arbitrary: s) (auto simp: invoke_def split: option.splits)

lemma send_test_email_eq:
  "send_test_email lib h p f t sub b n s =
     (first_raise lib (try_calls lib h p f t sub b) = None,
      s\<lparr>stdout := stdout s @ case_header n f t sub
                    @ [outcome_line (first_raise lib (try_calls lib h p f t sub b))],
        calls := calls s @ issued lib (try_calls lib h p f t sub b)\<rparr>)"
  by (auto simp: send_test_email_def try_block_def run_calls_eq print_def case_header_def
        outcome_line_def Let_def split: option.splits)

lemma send_case_eq:
  "send_case lib c s =
     (first_raise lib (case_calls lib c) = None,
      s\<lparr>stdout := stdout s @ case_report lib c,
        calls := calls s @ issued lib (case_calls lib c)\<rparr>)"
  by (simp add: send_case_def send_test_email_eq case_calls_def case_report_def)

lemma main_stdout:
  "stdout (main libs) =
     opening_banner
       @ case_report (libs 0) legitimate_business_email
       @ case_report (libs 1) newsletter_email
       @ case_report (libs 2) suspicious_phishing_email
       @ case_report (libs 3) malware_delivery_attempt
       @ case_report (libs 4) social_engineering_attempt
       @ closing_banner"
  by (simp add: main_def send_case_eq print_def sleep_def opening_banner_def closing_banner_def)

lemma main_calls:
  "calls (main libs) =
     issued (libs 0) (case_calls (libs 0) legitimate_business_email) @ [Sleep 1]
       @ issued (libs 1) (case_calls (libs 1) newsletter_email) @ [Sleep 1]
       @ issued (libs 2) (case_calls (libs 2) suspicious_phishing_email) @ [Sleep 1]
       @ issued (libs 3) (case_calls (libs 3) malware_delivery_attempt) @ [Sleep 1]
       @ issued (libs 4) (case_calls (libs 4) social_engineering_attempt)"
  by (simp add: main_def send_case_eq print_def sleep_def)

subsection \<open>Facts about sequences of calls\<close>

lemma first_raise_None_iff:
  "first_raise lib cs = None \<longleftrightarrow> (\<forall>c\<in>set cs. raises lib c = None)"
  by (induction cs) (auto split: option.splits)

lemma issued_all:
  "first_raise lib cs = None \<Longrightarrow> issued lib cs = cs"
  by (induction cs) (auto split: option.splits)

lemma issued_subset: "set (issued lib cs) \<subseteq> set cs"
  by (induction cs) (auto split: option.splits)

lemma issued_append:
  "issued lib (as @ bs) =
     (if first_raise lib as = None then as @ issued lib bs else issued lib as)"
  by (induction as) (auto split: option.splits)


lemma issued_whole:
  "issued lib cs = cs \<Longrightarrow> \<forall>c\<in>set (butlast cs). raises lib c = None"
proof (induction cs)
  case Nil
  then show ?case by simp
next
  case (Cons c cs)
  show ?case
  proof (cases "cs = []")
    case True
    then show ?thesis by simp
  next
    case False
    from Cons.prems have "raises lib c = None \<and> issued lib cs = cs"
      by (cases "raises lib c") (use False in auto)
    with Cons.IH False show ?thesis by simp
  qed
qed

lemma completes_iff:
  assumes ne: "cs \<noteq> []"
  shows "first_raise lib cs = None \<longleftrightarrow> issued lib cs = cs \<and> raises lib (last cs) = None"
proof
  assume n: "first_raise lib cs = None"
  with ne show "issued lib cs = cs \<and> raises lib (last cs) = None"
    by (simp add: issued_all first_raise_None_iff)
next
  assume r: "issued lib cs = cs \<and> raises lib (last cs) = None"
  then have b: "\<forall>c\<in>set (butlast cs). raises lib c = None"
    using issued_whole by blast
  have "raises lib c = None" if "c \<in> set cs" for c
  proof -
    from ne have "butlast cs @ [last cs] = cs" by simp
    with that have "c \<in> set (butlast cs @ [last cs])" by (simp only:)
    then have "c \<in> set (butlast cs) \<or> c = last cs" by auto
    with b r show ?thesis by blast
  qed
  then show "first_raise lib cs = None"
    by (simp add: first_raise_None_iff)
qed

lemma quit_issued_iff:
  "Quit \<in> set (issued lib (try_calls lib h p f t sub b)) \<longleftrightarrow>
     first_raise lib (take 10 (try_calls lib h p f t sub b)) = None"
proof -
  let ?cs = "try_calls lib h p f t sub b"
  have split: "?cs = take 10 ?cs @ [Quit]"
    by (simp add: try_calls_def)
  have noquit: "Quit \<notin> set (take 10 ?cs)"
    by (simp add: try_calls_def)
  with issued_subset[of lib "take 10 ?cs"] have pre: "Quit \<notin> set (issued lib (take 10 ?cs))"
    by blast
  have "issued lib ?cs =
          (if first_raise lib (take 10 ?cs) = None then take 10 ?cs @ issued lib [Quit]
           else issued lib (take 10 ?cs))"
    by (subst split) (simp only: issued_append)
  with pre show ?thesis by simp
qed

lemma envelopes_append: "envelopes (as @ bs) = envelopes as @ envelopes bs"
  by (induction as rule: envelopes.induct) auto

lemma envelopes_none:
  "\<forall>c\<in>set cs. \<forall>a r x. c \<noteq> Sendmail a r x \<Longrightarrow> envelopes cs = []"
  by (induction cs rule: envelopes.induct) auto

subsection \<open>The shape of the report\<close>

lemma length_case_header: "length (case_header n f t sub) = 4"
  by (simp add: case_header_def)

lemma length_case_report: "length (case_report lib c) = 5"
  by (simp add: case_report_def length_case_header)

lemma length_opening_banner: "length opening_banner = 2"
  by (simp add: opening_banner_def)

lemma length_closing_banner: "length closing_banner = 6"
  by (simp add: closing_banner_def)

lemma segments_no_sleep:
  "\<forall>c\<in>set cs. \<forall>n. c \<noteq> Sleep n \<Longrightarrow> segments cs = [cs]"
  by (induction cs rule: segments.induct) auto

lemma segments_sleep:
  "\<forall>c\<in>set as. \<forall>n. c \<noteq> Sleep n \<Longrightarrow> segments (as @ Sleep n # bs) = as # segments bs"
  by (induction as rule: segments.induct) auto

lemma issued_case_no_sleep: "\<forall>x\<in>set (issued lib (case_calls lib c)). \<forall>n. x \<noteq> Sleep n"
proof -
  have "\<forall>x\<in>set (case_calls lib c). \<forall>n. x \<noteq> Sleep n"
    by (simp add: case_calls_def try_calls_def)
  with issued_subset[of lib "case_calls lib c"] show ?thesis by blast
qed

lemma segments_main:
  "segments (calls (main libs)) =
     [issued (libs 0) (case_calls (libs 0) legitimate_business_email),
      issued (libs 1) (case_calls (libs 1) newsletter_email),
      issued (libs 2) (case_calls (libs 2) suspicious_phishing_email),
      issued (libs 3) (case_calls (libs 3) malware_delivery_attempt),
      issued (libs 4) (case_calls (libs 4) social_engineering_attempt)]"
  by (simp add: main_calls segments_sleep segments_no_sleep issued_case_no_sleep)

lemma less_5_cases: "k < 5 \<Longrightarrow> k = 0 \<or> k = 1 \<or> k = 2 \<or> k = 3 \<or> k = (4::nat)"
  by arith

lemma submitted_main:
  "k < 5 \<Longrightarrow> submitted (main libs) k = issued (libs k) (case_calls (libs k) (catalogue ! k))"
  by (auto dest!: less_5_cases simp: submitted_def segments_main catalogue_def)

lemma report_block_main:
  "k < 5 \<Longrightarrow> report_block (main libs) k = case_report (libs k) (catalogue ! k)"
  by (auto dest!: less_5_cases
      simp: report_block_def main_stdout catalogue_def length_case_report length_opening_banner)

lemma hd_issued_case: "hd (issued lib (case_calls lib c)) = MIMEMultipart_new"
  by (simp add: case_calls_def try_calls_def)

lemma upt_0_5: "[0..<5] = [0, 1, 2, 3, 4]"
  by (simp add: upt_rec)


subsection \<open>Outcome lines in the output\<close>

lemma outcome_line_is_outcome: "is_outcome_line (outcome_line r)"
  by (cases r) (simp_all add: outcome_line_def is_outcome_line_def success_line_def failure_line_def)

lemma header_no_outcome: "filter is_outcome_line (case_header n f t sub) = []"
  by (simp add: case_header_def is_outcome_line_def)

lemma banners_no_outcome:
  "filter is_outcome_line opening_banner = []" "filter is_outcome_line closing_banner = []"
  by (simp_all add: opening_banner_def closing_banner_def is_outcome_line_def eval_nat_numeral)

lemma filter_case_report:
  "filter is_outcome_line (case_report lib c) = [outcome_line (first_raise lib (case_calls lib c))]"
  by (simp add: case_report_def header_no_outcome outcome_line_is_outcome)

lemma outcome_pin_success:
  "\<forall>c\<in>set cs. raises lib c = None \<Longrightarrow>
     outcome_line (first_raise lib cs) = ''   COMPLETED Email sent successfully''"
  by (simp add: first_raise_None_iff[symmetric] outcome_line_def success_line_def)

lemma outcome_pin_failure:
  "first_raise lib cs = Some e \<Longrightarrow>
     outcome_line (first_raise lib cs) = ''   FAILED Failed to send email: '' @ exn_text e"
  by (simp add: outcome_line_def failure_line_def)

lemma outcome_pin_some_raise:
  assumes "\<not> (\<forall>c\<in>set cs. raises lib c = None)"
  shows "take 32 (outcome_line (first_raise lib cs)) = ''   FAILED Failed to send email: '' \<and>
         outcome_line (first_raise lib cs) \<noteq> ''   COMPLETED Email sent successfully''"
proof -
  from assms obtain e where "first_raise lib cs = Some e"
    by (cases "first_raise lib cs") (auto simp: first_raise_None_iff)
  then show ?thesis
    by (simp add: outcome_line_def failure_line_def)
qed

lemma outcome_pins:
  "((\<forall>c\<in>set cs. raises lib c = None) \<longrightarrow>
      outcome_line (first_raise lib cs) = ''   COMPLETED Email sent successfully'') \<and>
   (\<not> (\<forall>c\<in>set cs. raises lib c = None) \<longrightarrow>
      take 32 (outcome_line (first_raise lib cs)) = ''   FAILED Failed to send email: '' \<and>
      outcome_line (first_raise lib cs) \<noteq> ''   COMPLETED Email sent successfully'') \<and>
   (\<forall>e. first_raise lib cs = Some e \<longrightarrow>
      outcome_line (first_raise lib cs) = ''   FAILED Failed to send email: '' @ exn_text e)"
proof (intro conjI impI allI)
  assume "\<forall>c\<in>set cs. raises lib c = None"
  then show "outcome_line (first_raise lib cs) = ''   COMPLETED Email sent successfully''"
    by (rule outcome_pin_success)
next
  assume "\<not> (\<forall>c\<in>set cs. raises lib c = None)"
  from outcome_pin_some_raise[OF this]
  show "take 32 (outcome_line (first_raise lib cs)) = ''   FAILED Failed to send email: ''"
    by (rule conjunct1)
next
  assume "\<not> (\<forall>c\<in>set cs. raises lib c = None)"
  from outcome_pin_some_raise[OF this]
  show "outcome_line (first_raise lib cs) \<noteq> ''   COMPLETED Email sent successfully''"
    by (rule conjunct2)
next
  fix e
  assume "first_raise lib cs = Some e"
  then show "outcome_line (first_raise lib cs) = ''   FAILED Failed to send email: '' @ exn_text e"
    by (rule outcome_pin_failure)
qed

lemma report_block_outcome:
  "k < 5 \<Longrightarrow>
     report_block (main libs) k ! 4 =
       outcome_line (first_raise (libs k) (case_calls (libs k) (catalogue ! k)))"
  by (simp add: report_block_main case_report_def nth_append length_case_header)

subsection \<open>The reply to \<^verbatim>\<open>QUIT\<close>\<close>

lemma try_calls_quit_reply:
  "try_calls (lib\<lparr>quit_reply := r\<rparr>) h p f t sub b = try_calls lib h p f t sub b"
  by (simp add: try_calls_def)

lemma first_raise_quit_reply:
  "first_raise (lib\<lparr>quit_reply := r\<rparr>) cs = first_raise lib cs"
  by (induction cs) (simp_all split: option.splits)

lemma issued_quit_reply:
  "issued (lib\<lparr>quit_reply := r\<rparr>) cs = issued lib cs"
  by (induction cs) (simp_all split: option.splits)

subsection \<open>The function with failing prints and interrupts, in closed form\<close>

lemma run_calls_raising_eq:
  "run_calls_raising rt cs s = (first_event rt cs, s\<lparr>calls := calls s @ issued_raising rt cs\<rparr>)"
  by (induction cs arbitrary: s) (auto simp: invoke_raising_def split: option.splits)

lemma print_lines_raising_eq:
  "print_lines_raising rt ls s =
     (map_option Exc (first_print_error rt ls), s\<lparr>stdout := stdout s @ printed rt ls\<rparr>)"
  by (induction ls arbitrary: s) (auto simp: print_raising_def print_def split: option.splits)

lemma printed_all: "first_print_error rt ls = None \<Longrightarrow> printed rt ls = ls"
  by (induction ls) (auto split: option.splits)

lemma event_at:
  "j < length cs \<Longrightarrow> call_outcome rt (cs ! j) = Some r \<Longrightarrow> \<forall>i<j. call_outcome rt (cs ! i) = None
     \<Longrightarrow> first_event rt cs = Some r \<and> issued_raising rt cs = take (Suc j) cs"
proof (induction cs arbitrary: j)
  case Nil
  then show ?case by simp
next
  case (Cons c cs)
  show ?case
  proof (cases j)
    case 0
    with Cons.prems show ?thesis by simp
  next
    case (Suc j')
    from Cons.prems Suc have c: "call_outcome rt c = None" by auto
    from Cons.prems Suc have "j' < length cs" "call_outcome rt (cs ! j') = Some r"
      "\<forall>i<j'. call_outcome rt (cs ! i) = None" by auto
    from Cons.IH[OF this] c Suc show ?thesis by simp
  qed
qed

lemma no_interrupt_first_event:
  "interrupted rt = (\<lambda>c. False) \<Longrightarrow>
     first_event rt cs = map_option Exc (first_raise (library_of rt) cs)"
  by (induction cs) (auto simp: call_outcome_def split: option.splits)

lemma no_interrupt_issued:
  "interrupted rt = (\<lambda>c. False) \<Longrightarrow> issued_raising rt cs = issued (library_of rt) cs"
  by (induction cs) (auto simp: call_outcome_def split: option.splits)

lemma no_print_error_first: "print_error rt = (\<lambda>l. None) \<Longrightarrow> first_print_error rt ls = None"
  by (induction ls) auto

lemma try_block_raising_eq:
  "try_block_raising rt h p f t sub b s =
     (let cs = try_calls (library_of rt) h p f t sub b;
          s' = s\<lparr>calls := calls s @ issued_raising rt cs\<rparr>
      in case first_event rt cs of
           Some r \<Rightarrow> (Inl r, s')
         | None \<Rightarrow>
             (case print_error rt success_line of
                Some e \<Rightarrow> (Inl (Exc e), s')
              | None \<Rightarrow> (Inr True, s'\<lparr>stdout := stdout s' @ [success_line]\<rparr>)))"
  by (simp add: try_block_raising_def run_calls_raising_eq print_raising_def print_def Let_def
      split: option.splits)

lemma header_then_eq:
  "(case print_lines_raising rt hdr s of
      (Some r, s4) \<Rightarrow> (Inl r, s4)
    | (None, s4) \<Rightarrow> k s4) =
   (case first_print_error rt hdr of
      Some e \<Rightarrow> (Inl (Exc e), s\<lparr>stdout := stdout s @ printed rt hdr\<rparr>)
    | None \<Rightarrow> k (s\<lparr>stdout := stdout s @ hdr\<rparr>))"
  by (cases "first_print_error rt hdr") (simp_all add: print_lines_raising_eq printed_all)

lemma send_test_email_raising_eq:
  "send_test_email_raising rt h p f t sub b n s =
     (case first_print_error rt (case_header n f t sub) of
        Some e \<Rightarrow> (Inl (Exc e), s\<lparr>stdout := stdout s @ printed rt (case_header n f t sub)\<rparr>)
      | None \<Rightarrow>
          (let cs = try_calls (library_of rt) h p f t sub b;
               s5 = s\<lparr>stdout := stdout s @ case_header n f t sub,
                       calls := calls s @ issued_raising rt cs\<rparr>;
               handler = (\<lambda>e. case print_error rt (failure_line e) of
                                 Some e' \<Rightarrow> (Inl (Exc e'), s5)
                               | None \<Rightarrow> (Inr False, s5\<lparr>stdout := stdout s5 @ [failure_line e]\<rparr>))
           in case first_event rt cs of
                Some KeyboardInterrupt \<Rightarrow> (Inl KeyboardInterrupt, s5)
              | Some (Exc e) \<Rightarrow> handler e
              | None \<Rightarrow>
                  (case print_error rt success_line of
                     Some e \<Rightarrow> handler e
                   | None \<Rightarrow> (Inr True, s5\<lparr>stdout := stdout s5 @ [success_line]\<rparr>))))"
  unfolding send_test_email_raising_def case_header_def[symmetric] header_then_eq
  by (simp add: try_block_raising_eq print_raising_def print_def Let_def
      split: option.splits raised.splits)

section \<open>The claims\<close>

text \<open>
  Claim C1 (amended). The catalogue is part of the script: \<^verbatim>\<open>main\<close> takes no argument and
  submits the five scenarios written in its body, so the claim holds of that catalogue and
  of no other. For every behaviour of the libraries, the output of \<^verbatim>\<open>main\<close> is the opening
  banner, then for each scenario, in catalogue order, its four header lines and exactly
  one outcome line, then the closing banner; the outcome lines of the output are exactly
  these five, in this order. The outcome line of scenario \<open>k\<close> is the text
  \<^verbatim>\<open>   COMPLETED Email sent successfully\<close> when every call of the submission returned. When
  a call raised, it is \<^verbatim>\<open>   FAILED Failed to send email: \<close> followed by the text of the first
  exception, and it is not the success text: no failure is silent or shown as a success.
\<close>

theorem main_one_outcome_per_case:
  "length catalogue = 5 \<and>
   stdout (main libs) =
     opening_banner
       @ concat (map (\<lambda>k. header_of (catalogue ! k)
                         @ [outcome_line (first_raise (libs k) (case_calls (libs k) (catalogue ! k)))])
                  [0..<length catalogue])
       @ closing_banner \<and>
   filter is_outcome_line (stdout (main libs)) =
     map (\<lambda>k. outcome_line (first_raise (libs k) (case_calls (libs k) (catalogue ! k))))
       [0..<length catalogue] \<and>
   (\<forall>k<5.
      ((\<forall>c\<in>set (case_calls (libs k) (catalogue ! k)). raises (libs k) c = None) \<longrightarrow>
         report_block (main libs) k ! 4 = ''   COMPLETED Email sent successfully'') \<and>
      (\<not> (\<forall>c\<in>set (case_calls (libs k) (catalogue ! k)). raises (libs k) c = None) \<longrightarrow>
         take 32 (report_block (main libs) k ! 4) = ''   FAILED Failed to send email: '' \<and>
         report_block (main libs) k ! 4 \<noteq> ''   COMPLETED Email sent successfully'') \<and>
      (\<forall>e. first_raise (libs k) (case_calls (libs k) (catalogue ! k)) = Some e \<longrightarrow>
         report_block (main libs) k ! 4 = ''   FAILED Failed to send email: '' @ exn_text e))"
proof -
  have len: "length catalogue = 5"
    by (simp add: catalogue_def)
  have shape: "stdout (main libs) =
     opening_banner
       @ concat (map (\<lambda>k. header_of (catalogue ! k)
                         @ [outcome_line (first_raise (libs k) (case_calls (libs k) (catalogue ! k)))])
                  [0..<length catalogue])
       @ closing_banner"
    unfolding len upt_0_5
    by (simp add: main_stdout catalogue_def case_report_def header_of_def)
  have lines: "filter is_outcome_line (stdout (main libs)) =
     map (\<lambda>k. outcome_line (first_raise (libs k) (case_calls (libs k) (catalogue ! k))))
       [0..<length catalogue]"
    unfolding len upt_0_5
    by (simp add: main_stdout banners_no_outcome filter_case_report catalogue_def)
  have pins: "\<forall>k<5.
      ((\<forall>c\<in>set (case_calls (libs k) (catalogue ! k)). raises (libs k) c = None) \<longrightarrow>
         report_block (main libs) k ! 4 = ''   COMPLETED Email sent successfully'') \<and>
      (\<not> (\<forall>c\<in>set (case_calls (libs k) (catalogue ! k)). raises (libs k) c = None) \<longrightarrow>
         take 32 (report_block (main libs) k ! 4) = ''   FAILED Failed to send email: '' \<and>
         report_block (main libs) k ! 4 \<noteq> ''   COMPLETED Email sent successfully'') \<and>
      (\<forall>e. first_raise (libs k) (case_calls (libs k) (catalogue ! k)) = Some e \<longrightarrow>
         report_block (main libs) k ! 4 = ''   FAILED Failed to send email: '' @ exn_text e)"
  proof (intro allI impI)
    fix k :: nat
    assume k: "k < 5"
    show "((\<forall>c\<in>set (case_calls (libs k) (catalogue ! k)). raises (libs k) c = None) \<longrightarrow>
         report_block (main libs) k ! 4 = ''   COMPLETED Email sent successfully'') \<and>
      (\<not> (\<forall>c\<in>set (case_calls (libs k) (catalogue ! k)). raises (libs k) c = None) \<longrightarrow>
         take 32 (report_block (main libs) k ! 4) = ''   FAILED Failed to send email: '' \<and>
         report_block (main libs) k ! 4 \<noteq> ''   COMPLETED Email sent successfully'') \<and>
      (\<forall>e. first_raise (libs k) (case_calls (libs k) (catalogue ! k)) = Some e \<longrightarrow>
         report_block (main libs) k ! 4 = ''   FAILED Failed to send email: '' @ exn_text e)"
      unfolding report_block_outcome[OF k] by (rule outcome_pins)
  qed
  from len shape lines pins show ?thesis by (intro conjI)
qed

theorem main_one_outcome_per_case_witness:
  "stdout (main third_case_fails) =
     [''SECURITY fr0g.ai ESMTP Threat Vector Interceptor Test Suite'',
      ''============================================================'',
      CHR 0x0A # ''TESTING Legitimate Business Email'',
      ''   From: ceo@company.com'',
      ''   To: team@company.com'',
      ''   Subject: Q4 Strategy Meeting'',
      ''   COMPLETED Email sent successfully'',
      CHR 0x0A # ''TESTING Newsletter Email'',
      ''   From: newsletter@company.com'',
      ''   To: subscriber@example.com'',
      ''   Subject: Weekly Newsletter - AI Security Updates'',
      ''   COMPLETED Email sent successfully'',
      CHR 0x0A # ''TESTING Suspicious Phishing Email'',
      ''   From: security@bank-fake.com'',
      ''   To: customer@example.com'',
      ''   Subject: URGENT: Account Security Alert'',
      ''   FAILED Failed to send email: (554, b'Transaction failed')'',
      CHR 0x0A # ''TESTING Malware Delivery Attempt'',
      ''   From: admin@suspicious-domain.ru'',
      ''   To: victim@company.com'',
      ''   Subject: Invoice Attached - Please Review'',
      ''   COMPLETED Email sent successfully'',
      CHR 0x0A # ''TESTING Social Engineering Attempt'',
      ''   From: it-support@company-fake.com'',
      ''   To: employee@company.com'',
      ''   Subject: IT Security Update Required'',
      ''   COMPLETED Email sent successfully'',
      CHR 0x0A # ''COMPLETED ESMTP Test Suite Completed!'',
      CHR 0x0A # ''TIP Tips:'',
      ''   - Check MCP logs for threat analysis results'',
      ''   - Monitor AI community reviews for each email'',
      ''   - Watch for threat level classifications'',
      ''   - Observe pattern recognition in email content''] \<and>
   report_block (main third_case_fails) 2 ! 4
     = ''   FAILED Failed to send email: (554, b'Transaction failed')'' \<and>
   report_block (main third_case_fails) 3 ! 4 = ''   COMPLETED Email sent successfully''"
proof -
  note T = main_one_outcome_per_case[of third_case_fails]
  from T have shape: "stdout (main third_case_fails) =
     opening_banner
       @ concat (map (\<lambda>k. header_of (catalogue ! k)
                         @ [outcome_line (first_raise (third_case_fails k)
                              (case_calls (third_case_fails k) (catalogue ! k)))])
                  [0..<length catalogue])
       @ closing_banner"
    by (elim conjE)
  from T have pins: "\<forall>k<5.
      ((\<forall>c\<in>set (case_calls (third_case_fails k) (catalogue ! k)).
          raises (third_case_fails k) c = None) \<longrightarrow>
         report_block (main third_case_fails) k ! 4 = ''   COMPLETED Email sent successfully'') \<and>
      (\<forall>e. first_raise (third_case_fails k) (case_calls (third_case_fails k) (catalogue ! k))
            = Some e \<longrightarrow>
         report_block (main third_case_fails) k ! 4
           = ''   FAILED Failed to send email: '' @ exn_text e)"
    by blast
  have f: "first_raise (third_case_fails 2) (case_calls (third_case_fails 2) (catalogue ! 2))
             = Some (Exception ''(554, b'Transaction failed')'')"
    by (simp add: third_case_fails_def rejects_message_def case_calls_def try_calls_def)
  have g: "\<forall>c\<in>set (case_calls (third_case_fails 3) (catalogue ! 3)).
             raises (third_case_fails 3) c = None"
    by (simp add: third_case_fails_def cooperative_def)
  from pins f have a: "report_block (main third_case_fails) 2 ! 4
     = ''   FAILED Failed to send email: (554, b'Transaction failed')''"
    by force
  from pins g have b: "report_block (main third_case_fails) 3 ! 4
     = ''   COMPLETED Email sent successfully''"
    by force
  have len: "length catalogue = 5"
    by (simp add: catalogue_def)
  have full: "stdout (main third_case_fails) =
     [''SECURITY fr0g.ai ESMTP Threat Vector Interceptor Test Suite'',
      ''============================================================'',
      CHR 0x0A # ''TESTING Legitimate Business Email'',
      ''   From: ceo@company.com'',
      ''   To: team@company.com'',
      ''   Subject: Q4 Strategy Meeting'',
      ''   COMPLETED Email sent successfully'',
      CHR 0x0A # ''TESTING Newsletter Email'',
      ''   From: newsletter@company.com'',
      ''   To: subscriber@example.com'',
      ''   Subject: Weekly Newsletter - AI Security Updates'',
      ''   COMPLETED Email sent successfully'',
      CHR 0x0A # ''TESTING Suspicious Phishing Email'',
      ''   From: security@bank-fake.com'',
      ''   To: customer@example.com'',
      ''   Subject: URGENT: Account Security Alert'',
      ''   FAILED Failed to send email: (554, b'Transaction failed')'',
      CHR 0x0A # ''TESTING Malware Delivery Attempt'',
      ''   From: admin@suspicious-domain.ru'',
      ''   To: victim@company.com'',
      ''   Subject: Invoice Attached - Please Review'',
      ''   COMPLETED Email sent successfully'',
      CHR 0x0A # ''TESTING Social Engineering Attempt'',
      ''   From: it-support@company-fake.com'',
      ''   To: employee@company.com'',
      ''   Subject: IT Security Update Required'',
      ''   COMPLETED Email sent successfully'',
      CHR 0x0A # ''COMPLETED ESMTP Test Suite Completed!'',
      CHR 0x0A # ''TIP Tips:'',
      ''   - Check MCP logs for threat analysis results'',
      ''   - Monitor AI community reviews for each email'',
      ''   - Watch for threat level classifications'',
      ''   - Observe pattern recognition in email content'']"
    unfolding shape len upt_0_5
    by (simp add: opening_banner_def closing_banner_def header_of_def case_header_def
        catalogue_def legitimate_business_email_def newsletter_email_def
        suspicious_phishing_email_def malware_delivery_attempt_def
        social_engineering_attempt_def case_calls_def try_calls_def third_case_fails_def
        cooperative_def rejects_message_def outcome_line_def success_line_def failure_line_def
        eval_nat_numeral)
  from full a b show ?thesis by (intro conjI)
qed

text \<open>
  The counterexample to claim C1 as stated, which speaks of every catalogue: for the
  catalogue of the one scenario \<open>suspicious_phishing_email\<close> a run still reports five
  outcomes, and the first block reported is that of \<open>legitimate_business_email\<close>.
\<close>

theorem other_catalogue_counterexample:
  "length (filter is_outcome_line (stdout (main all_cooperative))) = 5 \<and>
   length [suspicious_phishing_email] = 1 \<and>
   hd (report_block (main all_cooperative) 0) = CHR 0x0A # ''TESTING Legitimate Business Email'' \<and>
   hd (header_of suspicious_phishing_email) = CHR 0x0A # ''TESTING Suspicious Phishing Email''"
proof -
  have a: "length (filter is_outcome_line (stdout (main all_cooperative))) = 5"
    by (simp add: main_stdout banners_no_outcome filter_case_report)
  have b: "hd (report_block (main all_cooperative) 0)
             = CHR 0x0A # ''TESTING Legitimate Business Email''"
    by (simp add: report_block_main catalogue_def case_report_def case_header_def
        legitimate_business_email_def)
  have c: "hd (header_of suspicious_phishing_email)
             = CHR 0x0A # ''TESTING Suspicious Phishing Email''"
    by (simp add: header_of_def case_header_def suspicious_phishing_email_def)
  from a b c show ?thesis by simp
qed

text \<open>
  Claim C2 (the code diverges). The connection is to be closed on every exit path of a
  submission. The script calls \<^verbatim>\<open>server.quit()\<close> only at the end of the \<^verbatim>\<open>try\<close> block, and the
  handler closes nothing. When \<^verbatim>\<open>sendmail\<close> raises after the connection was opened, the
  submission ends with the failure line, and no \<open>Quit\<close> is among its calls. In
  general \<open>Quit\<close> is issued exactly when each of the ten calls before it returned: every
  failure after the connection was opened leaves it without \<^verbatim>\<open>quit\<close>.
\<close>

theorem sendmail_failure_skips_quit:
  "send_test_email rejects_message ''localhost'' 2525 ''security@bank-fake.com''
     ''customer@example.com'' ''URGENT: Account Security Alert'' ''Click here''
     ''Suspicious Phishing Email'' empty_process =
   (False,
    \<lparr>stdout =
       [CHR 0x0A # ''TESTING Suspicious Phishing Email'',
        ''   From: security@bank-fake.com'',
        ''   To: customer@example.com'',
        ''   Subject: URGENT: Account Security Alert'',
        ''   FAILED Failed to send email: (554, b'Transaction failed')''],
     calls =
       [MIMEMultipart_new,
        Setitem ''From'' ''security@bank-fake.com'',
        Setitem ''To'' ''customer@example.com'',
        Setitem ''Subject'' ''URGENT: Account Security Alert'',
        MIMEText_new ''Click here'' ''plain'',
        Attach,
        SMTP_new ''localhost'' 2525,
        Set_debuglevel 0,
        As_string,
        Sendmail ''security@bank-fake.com'' [''customer@example.com''] ''rendered message'']\<rparr>) \<and>
   Quit \<notin> set (calls (snd (send_test_email rejects_message ''localhost'' 2525
     ''security@bank-fake.com'' ''customer@example.com'' ''URGENT: Account Security Alert''
     ''Click here'' ''Suspicious Phishing Email'' empty_process))) \<and>
   (Quit \<in> set (calls (snd (send_test_email lib h p f t sub b n empty_process))) \<longleftrightarrow>
      first_raise lib (take 10 (try_calls lib h p f t sub b)) = None)"
proof -
  have at_input: "send_test_email rejects_message ''localhost'' 2525 ''security@bank-fake.com''
     ''customer@example.com'' ''URGENT: Account Security Alert'' ''Click here''
     ''Suspicious Phishing Email'' empty_process =
   (False,
    \<lparr>stdout =
       [CHR 0x0A # ''TESTING Suspicious Phishing Email'',
        ''   From: security@bank-fake.com'',
        ''   To: customer@example.com'',
        ''   Subject: URGENT: Account Security Alert'',
        ''   FAILED Failed to send email: (554, b'Transaction failed')''],
     calls =
       [MIMEMultipart_new,
        Setitem ''From'' ''security@bank-fake.com'',
        Setitem ''To'' ''customer@example.com'',
        Setitem ''Subject'' ''URGENT: Account Security Alert'',
        MIMEText_new ''Click here'' ''plain'',
        Attach,
        SMTP_new ''localhost'' 2525,
        Set_debuglevel 0,
        As_string,
        Sendmail ''security@bank-fake.com'' [''customer@example.com''] ''rendered message'']\<rparr>) \<and>
   Quit \<notin> set (calls (snd (send_test_email rejects_message ''localhost'' 2525
     ''security@bank-fake.com'' ''customer@example.com'' ''URGENT: Account Security Alert''
     ''Click here'' ''Suspicious Phishing Email'' empty_process)))"
    by (simp add: send_test_email_eq try_calls_def rejects_message_def case_header_def
      outcome_line_def failure_line_def empty_process_def)
  have in_general:
    "Quit \<in> set (calls (snd (send_test_email lib h p f t sub b n empty_process))) \<longleftrightarrow>
       first_raise lib (take 10 (try_calls lib h p f t sub b)) = None"
    by (simp add: send_test_email_eq empty_process_def quit_issued_iff)
  from at_input in_general show ?thesis by iprover
qed

text \<open>
  Claim C4. A failure of one submission does not abort the run and leaves the others
  untouched. Let two runs agree on how the libraries answer during every submission but
  number \<open>i\<close>. Then for every other scenario \<open>k\<close> the five report lines and the calls
  issued are the same in both runs; and in the run where submission \<open>i\<close> differs
  (fails, say), scenario \<open>k\<close> is attempted: its header is printed and its calls start.
\<close>

theorem failure_isolation:
  assumes "\<forall>j. j \<noteq> i \<longrightarrow> libs' j = libs j" and "k < 5" and "k \<noteq> i"
  shows "report_block (main libs') k = report_block (main libs) k \<and>
         submitted (main libs') k = submitted (main libs) k \<and>
         take 4 (report_block (main libs') k) = header_of (catalogue ! k) \<and>
         hd (submitted (main libs') k) = MIMEMultipart_new"
proof -
  from assms have "libs' k = libs k" by simp
  with \<open>k < 5\<close> show ?thesis
    by (simp add: report_block_main submitted_main hd_issued_case case_report_def
        header_of_def length_case_header)
qed

theorem failure_isolation_witness:
  "report_block (main third_case_fails) 3 = report_block (main all_cooperative) 3 \<and>
   submitted (main third_case_fails) 3 = submitted (main all_cooperative) 3 \<and>
   take 4 (report_block (main third_case_fails) 3) = header_of (catalogue ! 3) \<and>
   hd (submitted (main third_case_fails) 3) = MIMEMultipart_new \<and>
   report_block (main third_case_fails) 2 \<noteq> report_block (main all_cooperative) 2"
proof -
  have h: "\<forall>j. j \<noteq> 2 \<longrightarrow> third_case_fails j = all_cooperative j"
    by (simp add: third_case_fails_def all_cooperative_def)
  have d: "report_block (main third_case_fails) 2 \<noteq> report_block (main all_cooperative) 2"
    by (simp add: report_block_main catalogue_def case_report_def case_calls_def try_calls_def
        third_case_fails_def all_cooperative_def rejects_message_def cooperative_def
        outcome_line_def success_line_def failure_line_def)
  have k: "(3::nat) < 5" "(3::nat) \<noteq> 2" by simp_all
  from failure_isolation[OF h k] d show ?thesis by iprover
qed

text \<open>
  Claim C5 (amended). \<^verbatim>\<open>send_test_email\<close> returns \<^verbatim>\<open>True\<close> exactly when no call of the
  submission sequence raises, which is exactly when the whole sequence was issued, through
  connect, \<^verbatim>\<open>sendmail\<close> and \<^verbatim>\<open>quit\<close>, and \<^verbatim>\<open>quit\<close> returned. The reply of the server to
  \<^verbatim>\<open>QUIT\<close> is not looked at: the result is the same for every reply code. On success the
  last line printed is the success line, which carries no error detail. Otherwise the
  function returns \<^verbatim>\<open>False\<close> and the last line printed is the failure prefix followed by
  the text of the exception that the first failing call raised; that text is non-empty
  provided every exception the libraries raise carries a message, as the transport errors
  and protocol rejections of \<^verbatim>\<open>smtplib\<close> and \<^verbatim>\<open>socket\<close> do.
\<close>

theorem send_test_email_outcome:
  fixes lib h p f t sub b n s
  defines "cs \<equiv> try_calls lib h p f t sub b"
  defines "R \<equiv> send_test_email lib h p f t sub b n s"
  assumes texts: "\<forall>c e. raises lib c = Some e \<longrightarrow> exn_text e \<noteq> []"
  shows "(fst R \<longleftrightarrow> (\<forall>c\<in>set cs. raises lib c = None)) \<and>
         (fst R \<longleftrightarrow> calls (snd R) = calls s @ cs \<and> raises lib Quit = None) \<and>
         (\<forall>r. send_test_email (lib\<lparr>quit_reply := r\<rparr>) h p f t sub b n s = R) \<and>
         (fst R \<longrightarrow> last (stdout (snd R)) = ''   COMPLETED Email sent successfully'') \<and>
         (\<not> fst R \<longrightarrow>
            (\<exists>e. first_raise lib cs = Some e \<and> exn_text e \<noteq> [] \<and>
                 last (stdout (snd R)) = ''   FAILED Failed to send email: '' @ exn_text e \<and>
                 last (stdout (snd R)) \<noteq> ''   COMPLETED Email sent successfully''))"
proof -
  have ne: "cs \<noteq> []" and l: "last cs = Quit"
    by (simp_all add: cs_def try_calls_def)
  have R: "R = (first_raise lib cs = None,
      s\<lparr>stdout := stdout s @ case_header n f t sub @ [outcome_line (first_raise lib cs)],
        calls := calls s @ issued lib cs\<rparr>)"
    by (simp add: R_def cs_def send_test_email_eq)
  have 1: "fst R \<longleftrightarrow> (\<forall>c\<in>set cs. raises lib c = None)"
    by (simp add: R first_raise_None_iff)
  have 2: "fst R \<longleftrightarrow> calls (snd R) = calls s @ cs \<and> raises lib Quit = None"
    by (simp add: R completes_iff[OF ne, of lib] l)
  have 3: "\<forall>r. send_test_email (lib\<lparr>quit_reply := r\<rparr>) h p f t sub b n s = R"
    by (simp add: R_def send_test_email_eq try_calls_quit_reply first_raise_quit_reply
        issued_quit_reply)
  have 4: "fst R \<longrightarrow> last (stdout (snd R)) = ''   COMPLETED Email sent successfully''"
    by (simp add: R outcome_line_def success_line_def)
  have 5: "\<not> fst R \<longrightarrow>
            (\<exists>e. first_raise lib cs = Some e \<and> exn_text e \<noteq> [] \<and>
                 last (stdout (snd R)) = ''   FAILED Failed to send email: '' @ exn_text e \<and>
                 last (stdout (snd R)) \<noteq> ''   COMPLETED Email sent successfully'')"
  proof
    assume "\<not> fst R"
    then obtain e where e: "first_raise lib cs = Some e"
      by (cases "first_raise lib cs") (simp_all add: R)
    then obtain c where "raises lib c = Some e"
      by (induction cs) (auto split: option.splits)
    with texts have "exn_text e \<noteq> []" by blast
    with e show "\<exists>e. first_raise lib cs = Some e \<and> exn_text e \<noteq> [] \<and>
                 last (stdout (snd R)) = ''   FAILED Failed to send email: '' @ exn_text e \<and>
                 last (stdout (snd R)) \<noteq> ''   COMPLETED Email sent successfully''"
      by (simp add: R outcome_line_def failure_line_def)
  qed
  from 1 2 3 4 5 show ?thesis by (intro conjI)
qed

theorem send_test_email_outcome_witness:
  "fst (send_test_email cooperative ''localhost'' 2525 ''ceo@company.com'' ''team@company.com''
          ''Q4 Strategy Meeting'' ''Team'' ''Legitimate Business Email'' empty_process) \<and>
   last (stdout (snd (send_test_email cooperative ''localhost'' 2525 ''ceo@company.com''
          ''team@company.com'' ''Q4 Strategy Meeting'' ''Team'' ''Legitimate Business Email''
          empty_process))) = ''   COMPLETED Email sent successfully'' \<and>
   \<not> fst (send_test_email refuses_connection ''localhost'' 2525 ''ceo@company.com''
          ''team@company.com'' ''Q4 Strategy Meeting'' ''Team'' ''Legitimate Business Email''
          empty_process) \<and>
   last (stdout (snd (send_test_email refuses_connection ''localhost'' 2525 ''ceo@company.com''
          ''team@company.com'' ''Q4 Strategy Meeting'' ''Team'' ''Legitimate Business Email''
          empty_process))) = ''   FAILED Failed to send email: [Errno 111] Connection refused''"
proof -
  let ?cs = "\<lambda>lib. try_calls lib ''localhost'' 2525 ''ceo@company.com'' ''team@company.com''
          ''Q4 Strategy Meeting'' ''Team''"
  have ta: "\<forall>c e. raises cooperative c = Some e \<longrightarrow> exn_text e \<noteq> []"
    by (simp add: cooperative_def)
  have tb: "\<forall>c e. raises refuses_connection c = Some e \<longrightarrow> exn_text e \<noteq> []"
    by (auto simp: refuses_connection_def split: call.splits)
  have a: "\<forall>c\<in>set (?cs cooperative). raises cooperative c = None"
    by (simp add: cooperative_def)
  have b: "\<not> (\<forall>c\<in>set (?cs refuses_connection). raises refuses_connection c = None)"
    by (simp add: refuses_connection_def try_calls_def)
  have c: "first_raise refuses_connection (?cs refuses_connection)
             = Some (Exception ''[Errno 111] Connection refused'')"
    by (simp add: refuses_connection_def try_calls_def)
  note A = send_test_email_outcome[OF ta, of "''localhost''" 2525 "''ceo@company.com''"
      "''team@company.com''" "''Q4 Strategy Meeting''" "''Team''" "''Legitimate Business Email''"
      empty_process]
  note B = send_test_email_outcome[OF tb, of "''localhost''" 2525 "''ceo@company.com''"
      "''team@company.com''" "''Q4 Strategy Meeting''" "''Team''" "''Legitimate Business Email''"
      empty_process]
  from A a have 1: "fst (send_test_email cooperative ''localhost'' 2525 ''ceo@company.com''
          ''team@company.com'' ''Q4 Strategy Meeting'' ''Team'' ''Legitimate Business Email''
          empty_process)" by blast
  with A have 2: "last (stdout (snd (send_test_email cooperative ''localhost'' 2525
          ''ceo@company.com'' ''team@company.com'' ''Q4 Strategy Meeting'' ''Team''
          ''Legitimate Business Email'' empty_process)))
        = ''   COMPLETED Email sent successfully''" by blast
  from B b have 3: "\<not> fst (send_test_email refuses_connection ''localhost'' 2525
          ''ceo@company.com'' ''team@company.com'' ''Q4 Strategy Meeting'' ''Team''
          ''Legitimate Business Email'' empty_process)" by blast
  with B c have 4: "last (stdout (snd (send_test_email refuses_connection ''localhost'' 2525
          ''ceo@company.com'' ''team@company.com'' ''Q4 Strategy Meeting'' ''Team''
          ''Legitimate Business Email'' empty_process)))
        = ''   FAILED Failed to send email: [Errno 111] Connection refused''"
    by auto
  from 1 2 3 4 show ?thesis by iprover
qed

text \<open>
  The counterexample to claim C5 as stated: the endpoint accepts the message and rejects
  \<^verbatim>\<open>QUIT\<close> with the reply 500. \<^verbatim>\<open>smtplib\<close> raises for a rejected sender, recipient or
  message, but \<^verbatim>\<open>quit()\<close> returns the reply as it is; the submission sequence has a
  protocol-level rejection, and the function prints the success line and returns \<^verbatim>\<open>True\<close>.
\<close>

theorem rejected_quit_counterexample:
  "rejection_reply (quit_reply rejects_quit) \<and>
   send_test_email rejects_quit ''localhost'' 2525 ''security@bank-fake.com''
     ''customer@example.com'' ''URGENT: Account Security Alert'' ''Click here''
     ''Suspicious Phishing Email'' empty_process =
   (True,
    \<lparr>stdout =
       [CHR 0x0A # ''TESTING Suspicious Phishing Email'',
        ''   From: security@bank-fake.com'',
        ''   To: customer@example.com'',
        ''   Subject: URGENT: Account Security Alert'',
        ''   COMPLETED Email sent successfully''],
     calls =
       [MIMEMultipart_new,
        Setitem ''From'' ''security@bank-fake.com'',
        Setitem ''To'' ''customer@example.com'',
        Setitem ''Subject'' ''URGENT: Account Security Alert'',
        MIMEText_new ''Click here'' ''plain'',
        Attach,
        SMTP_new ''localhost'' 2525,
        Set_debuglevel 0,
        As_string,
        Sendmail ''security@bank-fake.com'' [''customer@example.com''] ''rendered message'',
        Quit]\<rparr>)"
  by (simp add: rejection_reply_def send_test_email_eq try_calls_def rejects_quit_def
      case_header_def outcome_line_def success_line_def empty_process_def)




text \<open>
  Claim C7. The message is submitted with the test case's sender address as the envelope
  sender and its recipient address as the only envelope recipient. A submission adds at
  most one envelope to those handed to \<^verbatim>\<open>sendmail\<close>: none when a call before \<^verbatim>\<open>sendmail\<close>
  raised, and otherwise exactly the pair of \<^verbatim>\<open>from_addr\<close> and the one-element list of
  \<^verbatim>\<open>to_addr\<close>.
\<close>

theorem envelope_from_case:
  "envelopes (calls (snd (send_test_email lib h p f t sub b n s))) =
     envelopes (calls s)
       @ (if first_raise lib (take 9 (try_calls lib h p f t sub b)) = None then [(f, [t])]
          else [])"
proof -
  let ?cs = "try_calls lib h p f t sub b"
  have split: "?cs = take 9 ?cs @ [Sendmail f [t] (as_string_value lib), Quit]"
    by (simp add: try_calls_def)
  have nosend: "\<forall>c\<in>set (take 9 ?cs). \<forall>a r x. c \<noteq> Sendmail a r x"
    by (simp add: try_calls_def)
  have pre: "envelopes (issued lib (take 9 ?cs)) = []"
    using nosend issued_subset[of lib "take 9 ?cs"] by (intro envelopes_none) blast
  have "envelopes (issued lib ?cs) =
          (if first_raise lib (take 9 ?cs) = None then [(f, [t])] else [])"
    by (subst split, simp only: issued_append)
       (auto simp: envelopes_append envelopes_none[OF nosend] pre split: option.splits)
  then show ?thesis
    by (simp add: send_test_email_eq envelopes_append)
qed

theorem envelope_from_case_witness:
  "envelopes (calls (snd (send_test_email cooperative ''localhost'' 2525
      ''security@bank-fake.com'' ''customer@example.com'' ''URGENT: Account Security Alert''
      ''Click here'' ''Suspicious Phishing Email'' empty_process)))
     = [(''security@bank-fake.com'', [''customer@example.com''])] \<and>
   envelopes (calls (snd (send_test_email refuses_connection ''localhost'' 2525
      ''security@bank-fake.com'' ''customer@example.com'' ''URGENT: Account Security Alert''
      ''Click here'' ''Suspicious Phishing Email'' empty_process))) = []"
proof -
  have a: "first_raise cooperative (take 9 (try_calls cooperative ''localhost'' 2525
      ''security@bank-fake.com'' ''customer@example.com'' ''URGENT: Account Security Alert''
      ''Click here'')) = None"
    by (simp add: try_calls_def cooperative_def)
  have b: "first_raise refuses_connection (take 9 (try_calls refuses_connection ''localhost'' 2525
      ''security@bank-fake.com'' ''customer@example.com'' ''URGENT: Account Security Alert''
      ''Click here'')) \<noteq> None"
    by (simp add: try_calls_def refuses_connection_def)
  have e: "envelopes (calls empty_process) = []"
    by (simp add: empty_process_def)
  show ?thesis
    using envelope_from_case[of cooperative "''localhost''" 2525 "''security@bank-fake.com''"
        "''customer@example.com''" "''URGENT: Account Security Alert''" "''Click here''"
        "''Suspicious Phishing Email''" empty_process]
      envelope_from_case[of refuses_connection "''localhost''" 2525 "''security@bank-fake.com''"
        "''customer@example.com''" "''URGENT: Account Security Alert''" "''Click here''"
        "''Suspicious Phishing Email''" empty_process]
    by (simp only: a b e if_True if_False append_Nil simp_thms)
qed

text \<open>
  Claim C8. The catalogue is a fixed sequence of five test cases: legitimate business
  email, newsletter, phishing, malware delivery, social engineering, in this order; and
  every field of every test case is non-empty.
\<close>

theorem catalogue_five_cases:
  "length catalogue = 5 \<and>
   map tc_name catalogue =
     [''Legitimate Business Email'', ''Newsletter Email'', ''Suspicious Phishing Email'',
      ''Malware Delivery Attempt'', ''Social Engineering Attempt''] \<and>
   list_all fields_nonempty catalogue"
  by (simp add: catalogue_def fields_nonempty_def legitimate_business_email_def
      newsletter_email_def suspicious_phishing_email_def malware_delivery_attempt_def
      social_engineering_attempt_def)

text \<open>
  Claim C9 (amended). \<^verbatim>\<open>send_test_email\<close> catches the instances of \<^verbatim>\<open>Exception\<close> raised in
  its \<^verbatim>\<open>try\<close> block, and nothing else. When the header was printed and a call of the block
  is the first not to return, raising an instance of \<^verbatim>\<open>Exception\<close>, the calls stop there
  and the handler prints the failure line with the text of that exception; the function
  then returns \<^verbatim>\<open>False\<close>, unless that \<^verbatim>\<open>print\<close> raises, which leaves the function. The six
  calls that build the message come before any call on the SMTP connection. An exception
  raised by one of the four \<^verbatim>\<open>print\<close> statements of the header leaves the function, and so
  does a \<^verbatim>\<open>KeyboardInterrupt\<close> during a call of the block. When no \<^verbatim>\<open>print\<close> raises and no
  interrupt arrives, the function returns a boolean, the one computed by
  \<open>send_test_email\<close> above, with the same output and calls.
\<close>

theorem send_test_email_catches:
  fixes rt h p f t sub b n s
  defines "cs \<equiv> try_calls (library_of rt) h p f t sub b"
    and "hdr \<equiv> case_header n f t sub"
    and "R \<equiv> send_test_email_raising rt h p f t sub b n s"
  shows
    "(first_print_error rt hdr = None \<and> j < length cs \<and> call_outcome rt (cs ! j) = Some (Exc e) \<and>
      (\<forall>i<j. call_outcome rt (cs ! i) = None) \<longrightarrow>
        R = (case print_error rt (''   FAILED Failed to send email: '' @ exn_text e) of
               None \<Rightarrow>
                 (Inr False,
                  s\<lparr>stdout := stdout s @ hdr @ [''   FAILED Failed to send email: '' @ exn_text e],
                    calls := calls s @ take (Suc j) cs\<rparr>)
             | Some e' \<Rightarrow>
                 (Inl (Exc e'),
                  s\<lparr>stdout := stdout s @ hdr, calls := calls s @ take (Suc j) cs\<rparr>))) \<and>
     filter is_smtp_call (take 6 cs) = [] \<and>
     (first_print_error rt hdr = Some e \<longrightarrow>
        R = (Inl (Exc e), s\<lparr>stdout := stdout s @ printed rt hdr\<rparr>)) \<and>
     (first_print_error rt hdr = None \<and> j < length cs \<and>
      call_outcome rt (cs ! j) = Some KeyboardInterrupt \<and>
      (\<forall>i<j. call_outcome rt (cs ! i) = None) \<longrightarrow>
        R = (Inl KeyboardInterrupt,
             s\<lparr>stdout := stdout s @ hdr, calls := calls s @ take (Suc j) cs\<rparr>)) \<and>
     (print_error rt = (\<lambda>l. None) \<and> interrupted rt = (\<lambda>c. False) \<longrightarrow>
        R = (Inr (fst (send_test_email (library_of rt) h p f t sub b n s)),
             snd (send_test_email (library_of rt) h p f t sub b n s)))"
proof -
  note eq = send_test_email_raising_eq[of rt h p f t sub b n s, folded cs_def hdr_def R_def]
  have fl: "\<And>x. failure_line x = ''   FAILED Failed to send email: '' @ exn_text x"
    by (simp add: failure_line_def)
  have 1: "R = (case print_error rt (''   FAILED Failed to send email: '' @ exn_text e) of
               None \<Rightarrow>
                 (Inr False,
                  s\<lparr>stdout := stdout s @ hdr @ [''   FAILED Failed to send email: '' @ exn_text e],
                    calls := calls s @ take (Suc j) cs\<rparr>)
             | Some e' \<Rightarrow>
                 (Inl (Exc e'),
                  s\<lparr>stdout := stdout s @ hdr, calls := calls s @ take (Suc j) cs\<rparr>))"
    if "first_print_error rt hdr = None" "j < length cs" "call_outcome rt (cs ! j) = Some (Exc e)"
      "\<forall>i<j. call_outcome rt (cs ! i) = None"
  proof -
    from event_at[OF that(2,3,4)] that(1) show ?thesis
      by (simp add: eq fl Let_def split: option.splits)
  qed
  have 2: "filter is_smtp_call (take 6 cs) = []"
    by (simp add: cs_def try_calls_def)
  have 3: "R = (Inl (Exc e), s\<lparr>stdout := stdout s @ printed rt hdr\<rparr>)"
    if "first_print_error rt hdr = Some e"
    using that by (simp add: eq)
  have 4: "R = (Inl KeyboardInterrupt,
             s\<lparr>stdout := stdout s @ hdr, calls := calls s @ take (Suc j) cs\<rparr>)"
    if "first_print_error rt hdr = None" "j < length cs"
      "call_outcome rt (cs ! j) = Some KeyboardInterrupt" "\<forall>i<j. call_outcome rt (cs ! i) = None"
  proof -
    from event_at[OF that(2,3,4)] that(1) show ?thesis
      by (simp add: eq Let_def)
  qed
  have 5: "R = (Inr (fst (send_test_email (library_of rt) h p f t sub b n s)),
             snd (send_test_email (library_of rt) h p f t sub b n s))"
    if pe: "print_error rt = (\<lambda>l. None)" and ni: "interrupted rt = (\<lambda>c. False)"
  proof -
    have a: "first_print_error rt hdr = None"
      using pe by (rule no_print_error_first)
    have b: "\<And>l. print_error rt l = None"
      using pe by simp
    show ?thesis
      by (cases "first_raise (library_of rt) cs")
        (simp_all add: eq a b no_interrupt_first_event[OF ni] no_interrupt_issued[OF ni]
          send_test_email_eq cs_def[symmetric] hdr_def[symmetric] outcome_line_def Let_def
          fl success_line_def)
  qed
  from 1 2 3 4 5 show ?thesis by blast
qed

theorem send_test_email_catches_witness:
  "send_test_email_raising no_server ''localhost'' 2525 ''ceo@company.com'' ''team@company.com''
     ''Q4 Strategy Meeting'' ''Team'' ''Legitimate Business Email'' empty_process =
   (Inr False,
    \<lparr>stdout =
       [CHR 0x0A # ''TESTING Legitimate Business Email'',
        ''   From: ceo@company.com'',
        ''   To: team@company.com'',
        ''   Subject: Q4 Strategy Meeting'',
        ''   FAILED Failed to send email: [Errno 111] Connection refused''],
     calls =
       [MIMEMultipart_new,
        Setitem ''From'' ''ceo@company.com'',
        Setitem ''To'' ''team@company.com'',
        Setitem ''Subject'' ''Q4 Strategy Meeting'',
        MIMEText_new ''Team'' ''plain'',
        Attach,
        SMTP_new ''localhost'' 2525]\<rparr>) \<and>
   send_test_email_raising no_server ''localhost'' 2525 ''ceo@company.com'' ''team@company.com''
     ''Q4 Strategy Meeting'' ''Team'' ''Legitimate Business Email'' empty_process =
   (Inr (fst (send_test_email refuses_connection ''localhost'' 2525 ''ceo@company.com''
                ''team@company.com'' ''Q4 Strategy Meeting'' ''Team''
                ''Legitimate Business Email'' empty_process)),
    snd (send_test_email refuses_connection ''localhost'' 2525 ''ceo@company.com''
           ''team@company.com'' ''Q4 Strategy Meeting'' ''Team''
           ''Legitimate Business Email'' empty_process)) \<and>
   send_test_email_raising interrupted_connect ''localhost'' 2525 ''ceo@company.com''
     ''team@company.com'' ''Q4 Strategy Meeting'' ''Team'' ''Legitimate Business Email''
     empty_process =
   (Inl KeyboardInterrupt,
    \<lparr>stdout =
       [CHR 0x0A # ''TESTING Legitimate Business Email'',
        ''   From: ceo@company.com'',
        ''   To: team@company.com'',
        ''   Subject: Q4 Strategy Meeting''],
     calls =
       [MIMEMultipart_new,
        Setitem ''From'' ''ceo@company.com'',
        Setitem ''To'' ''team@company.com'',
        Setitem ''Subject'' ''Q4 Strategy Meeting'',
        MIMEText_new ''Team'' ''plain'',
        Attach,
        SMTP_new ''localhost'' 2525]\<rparr>) \<and>
   send_test_email_raising ascii_stdout ''localhost'' 2525 ''ceo@company.com''
     ''team@company.com'' (''Caf'' @ [CHR 0xE9]) ''Team'' ''Legitimate Business Email''
     empty_process =
   (Inl (Exc (Exception (CHR 0x27 # ''ascii' codec can't encode character ''
                           @ [CHR 0x27, CHR 0x5C]
                           @ ''xe9' in position 15: ordinal not in range(128)''))),
    \<lparr>stdout =
       [CHR 0x0A # ''TESTING Legitimate Business Email'',
        ''   From: ceo@company.com'',
        ''   To: team@company.com''],
     calls = []\<rparr>)"
proof -
  let ?e = "Exception ''[Errno 111] Connection refused''"
  let ?u = "Exception (CHR 0x27 # ''ascii' codec can't encode character ''
                           @ [CHR 0x27, CHR 0x5C]
                           @ ''xe9' in position 15: ordinal not in range(128)'')"
  let ?hdr = "case_header ''Legitimate Business Email'' ''ceo@company.com'' ''team@company.com''
                ''Q4 Strategy Meeting''"
  let ?uhdr = "case_header ''Legitimate Business Email'' ''ceo@company.com'' ''team@company.com''
                (''Caf'' @ [CHR 0xE9])"
  have six: "\<And>i::nat. i < 6 \<Longrightarrow> i = 0 \<or> i = 1 \<or> i = 2 \<or> i = 3 \<or> i = 4 \<or> i = 5"
    by arith
  have a: "first_print_error no_server ?hdr = None \<and>
           6 < length (try_calls (library_of no_server) ''localhost'' 2525 ''ceo@company.com''
                         ''team@company.com'' ''Q4 Strategy Meeting'' ''Team'') \<and>
           call_outcome no_server
             (try_calls (library_of no_server) ''localhost'' 2525 ''ceo@company.com''
                ''team@company.com'' ''Q4 Strategy Meeting'' ''Team'' ! 6) = Some (Exc ?e) \<and>
           (\<forall>i<6. call_outcome no_server
             (try_calls (library_of no_server) ''localhost'' 2525 ''ceo@company.com''
                ''team@company.com'' ''Q4 Strategy Meeting'' ''Team'' ! i) = None)"
    by (auto simp: no_server_def refuses_connection_def case_header_def try_calls_def
        call_outcome_def dest!: six)
  have f: "print_error no_server = (\<lambda>l. None) \<and> interrupted no_server = (\<lambda>c. False)"
    by (simp add: no_server_def)
  have d: "first_print_error interrupted_connect ?hdr = None \<and>
           6 < length (try_calls (library_of interrupted_connect) ''localhost'' 2525
                         ''ceo@company.com'' ''team@company.com'' ''Q4 Strategy Meeting'' ''Team'') \<and>
           call_outcome interrupted_connect
             (try_calls (library_of interrupted_connect) ''localhost'' 2525 ''ceo@company.com''
                ''team@company.com'' ''Q4 Strategy Meeting'' ''Team'' ! 6) = Some KeyboardInterrupt \<and>
           (\<forall>i<6. call_outcome interrupted_connect
             (try_calls (library_of interrupted_connect) ''localhost'' 2525 ''ceo@company.com''
                ''team@company.com'' ''Q4 Strategy Meeting'' ''Team'' ! i) = None)"
    by (auto simp: interrupted_connect_def cooperative_def case_header_def try_calls_def
        call_outcome_def dest!: six)
  have c: "first_print_error ascii_stdout ?uhdr = Some ?u"
    by (simp add: ascii_stdout_def case_header_def)
  note T1 = send_test_email_catches[where rt = no_server and n = "''Legitimate Business Email''"
      and f = "''ceo@company.com''" and t = "''team@company.com''"
      and sub = "''Q4 Strategy Meeting''" and j = 6 and h = "''localhost''" and p = 2525
      and b = "''Team''" and e = ?e and s = empty_process]
  note T2 = send_test_email_catches[where rt = interrupted_connect
      and n = "''Legitimate Business Email''"
      and f = "''ceo@company.com''" and t = "''team@company.com''"
      and sub = "''Q4 Strategy Meeting''" and j = 6 and h = "''localhost''" and p = 2525
      and b = "''Team''" and e = ?e and s = empty_process]
  note T3 = send_test_email_catches[where rt = ascii_stdout
      and n = "''Legitimate Business Email''"
      and f = "''ceo@company.com''" and t = "''team@company.com''"
      and sub = "''Caf'' @ [CHR 0xE9]" and j = 6 and h = "''localhost''" and p = 2525
      and b = "''Team''" and e = ?u and s = empty_process]
  have pn: "print_error no_server
              (''   FAILED Failed to send email: '' @ exn_text ?e) = None"
    by (simp add: no_server_def)
  from T1 a have "send_test_email_raising no_server ''localhost'' 2525 ''ceo@company.com''
      ''team@company.com'' ''Q4 Strategy Meeting'' ''Team'' ''Legitimate Business Email''
      empty_process =
      (case print_error no_server (''   FAILED Failed to send email: '' @ exn_text ?e) of
         None \<Rightarrow>
           (Inr False,
            empty_process\<lparr>stdout := stdout empty_process @ ?hdr
                @ [''   FAILED Failed to send email: '' @ exn_text ?e],
              calls := calls empty_process
                @ take (Suc 6) (try_calls (library_of no_server) ''localhost'' 2525
                     ''ceo@company.com'' ''team@company.com'' ''Q4 Strategy Meeting'' ''Team'')\<rparr>)
       | Some e' \<Rightarrow>
           (Inl (Exc e'),
            empty_process\<lparr>stdout := stdout empty_process @ ?hdr,
              calls := calls empty_process
                @ take (Suc 6) (try_calls (library_of no_server) ''localhost'' 2525
                     ''ceo@company.com'' ''team@company.com'' ''Q4 Strategy Meeting'' ''Team'')\<rparr>))"
    by blast
  then have w1: "send_test_email_raising no_server ''localhost'' 2525 ''ceo@company.com''
      ''team@company.com'' ''Q4 Strategy Meeting'' ''Team'' ''Legitimate Business Email''
      empty_process =
   (Inr False,
    \<lparr>stdout =
       [CHR 0x0A # ''TESTING Legitimate Business Email'',
        ''   From: ceo@company.com'',
        ''   To: team@company.com'',
        ''   Subject: Q4 Strategy Meeting'',
        ''   FAILED Failed to send email: [Errno 111] Connection refused''],
     calls =
       [MIMEMultipart_new,
        Setitem ''From'' ''ceo@company.com'',
        Setitem ''To'' ''team@company.com'',
        Setitem ''Subject'' ''Q4 Strategy Meeting'',
        MIMEText_new ''Team'' ''plain'',
        Attach,
        SMTP_new ''localhost'' 2525]\<rparr>)"
    unfolding pn
    by (simp add: try_calls_def case_header_def empty_process_def)
  from T1 f have "send_test_email_raising no_server ''localhost'' 2525 ''ceo@company.com''
      ''team@company.com'' ''Q4 Strategy Meeting'' ''Team'' ''Legitimate Business Email''
      empty_process =
      (Inr (fst (send_test_email (library_of no_server) ''localhost'' 2525 ''ceo@company.com''
                ''team@company.com'' ''Q4 Strategy Meeting'' ''Team''
                ''Legitimate Business Email'' empty_process)),
       snd (send_test_email (library_of no_server) ''localhost'' 2525 ''ceo@company.com''
           ''team@company.com'' ''Q4 Strategy Meeting'' ''Team''
           ''Legitimate Business Email'' empty_process))"
    by blast
  moreover have "library_of no_server = refuses_connection"
    by (simp add: no_server_def)
  ultimately have w2: "send_test_email_raising no_server ''localhost'' 2525 ''ceo@company.com''
      ''team@company.com'' ''Q4 Strategy Meeting'' ''Team'' ''Legitimate Business Email''
      empty_process =
      (Inr (fst (send_test_email refuses_connection ''localhost'' 2525 ''ceo@company.com''
                ''team@company.com'' ''Q4 Strategy Meeting'' ''Team''
                ''Legitimate Business Email'' empty_process)),
       snd (send_test_email refuses_connection ''localhost'' 2525 ''ceo@company.com''
           ''team@company.com'' ''Q4 Strategy Meeting'' ''Team''
           ''Legitimate Business Email'' empty_process))"
    by simp
  from T2 d have "send_test_email_raising interrupted_connect ''localhost'' 2525
      ''ceo@company.com'' ''team@company.com'' ''Q4 Strategy Meeting'' ''Team''
      ''Legitimate Business Email'' empty_process =
      (Inl KeyboardInterrupt,
       empty_process\<lparr>stdout := stdout empty_process @ ?hdr,
         calls := calls empty_process
           @ take (Suc 6) (try_calls (library_of interrupted_connect) ''localhost'' 2525
                ''ceo@company.com'' ''team@company.com'' ''Q4 Strategy Meeting'' ''Team'')\<rparr>)"
    by blast
  then have w3: "send_test_email_raising interrupted_connect ''localhost'' 2525
      ''ceo@company.com'' ''team@company.com'' ''Q4 Strategy Meeting'' ''Team''
      ''Legitimate Business Email'' empty_process =
   (Inl KeyboardInterrupt,
    \<lparr>stdout =
       [CHR 0x0A # ''TESTING Legitimate Business Email'',
        ''   From: ceo@company.com'',
        ''   To: team@company.com'',
        ''   Subject: Q4 Strategy Meeting''],
     calls =
       [MIMEMultipart_new,
        Setitem ''From'' ''ceo@company.com'',
        Setitem ''To'' ''team@company.com'',
        Setitem ''Subject'' ''Q4 Strategy Meeting'',
        MIMEText_new ''Team'' ''plain'',
        Attach,
        SMTP_new ''localhost'' 2525]\<rparr>)"
    by (simp add: try_calls_def case_header_def empty_process_def)
  from T3 c have "send_test_email_raising ascii_stdout ''localhost'' 2525 ''ceo@company.com''
      ''team@company.com'' (''Caf'' @ [CHR 0xE9]) ''Team'' ''Legitimate Business Email''
      empty_process =
      (Inl (Exc ?u),
       empty_process\<lparr>stdout := stdout empty_process @ printed ascii_stdout ?uhdr\<rparr>)"
    by blast
  then have w4: "send_test_email_raising ascii_stdout ''localhost'' 2525 ''ceo@company.com''
      ''team@company.com'' (''Caf'' @ [CHR 0xE9]) ''Team'' ''Legitimate Business Email''
      empty_process =
   (Inl (Exc ?u),
    \<lparr>stdout =
       [CHR 0x0A # ''TESTING Legitimate Business Email'',
        ''   From: ceo@company.com'',
        ''   To: team@company.com''],
     calls = []\<rparr>)"
    by (simp add: case_header_def empty_process_def ascii_stdout_def)
  from w1 w2 w3 w4 show ?thesis by (intro conjI)
qed

text \<open>
  The counterexample to claim C9 as stated, by which no exception reaches the caller: the
  standard output is encoded in ASCII and the subject is \<^verbatim>\<open>Caf\<close> followed by U+00E9; the
  \<^verbatim>\<open>print\<close> of the subject line, before the \<^verbatim>\<open>try\<close>, raises \<^verbatim>\<open>UnicodeEncodeError\<close>, which
  reaches the caller after three header lines and before any library call. And a
  \<^verbatim>\<open>KeyboardInterrupt\<close> while the connection is opened passes the handler.
\<close>

theorem exception_propagates_counterexample:
  "send_test_email_raising ascii_stdout ''localhost'' 2525 ''ceo@company.com''
     ''team@company.com'' (''Caf'' @ [CHR 0xE9]) ''Team'' ''Legitimate Business Email''
     empty_process =
   (Inl (Exc (Exception (CHR 0x27 # ''ascii' codec can't encode character ''
                           @ [CHR 0x27, CHR 0x5C]
                           @ ''xe9' in position 15: ordinal not in range(128)''))),
    \<lparr>stdout =
       [CHR 0x0A # ''TESTING Legitimate Business Email'',
        ''   From: ceo@company.com'',
        ''   To: team@company.com''],
     calls = []\<rparr>) \<and>
   fst (send_test_email_raising interrupted_connect ''localhost'' 2525
          ''security@bank-fake.com'' ''customer@example.com'' ''URGENT: Account Security Alert''
          ''Click here'' ''Suspicious Phishing Email'' empty_process) = Inl KeyboardInterrupt"
  by (simp add: send_test_email_raising_def try_block_raising_def print_raising_def
      invoke_raising_def call_outcome_def print_def try_calls_def ascii_stdout_def
      interrupted_connect_def cooperative_def empty_process_def failure_line_def
      success_line_def)

text \<open>
  Claim C10. \<^verbatim>\<open>main\<close> does not look at what the submissions return. Whatever the
  libraries do during the five submissions, \<^verbatim>\<open>main\<close> prints 33 lines and the last six are
  the closing banner, the same in any two runs. The model of \<^verbatim>\<open>main\<close> is a total function
  whose only result is the final state of the process: there is no exceptional exit.
\<close>

theorem main_completion_independent:
  "length (stdout (main libs)) = 33 \<and>
   drop 27 (stdout (main libs)) = closing_banner \<and>
   drop 27 (stdout (main libs)) = drop 27 (stdout (main libs'))"
  by (simp add: main_stdout length_case_report length_opening_banner length_closing_banner)

end
